theory Spec2Isabelle
  imports Main
begin

section \<open>JavaScript strings\<close>

text \<open>
  The front end is TypeScript. A string is modelled as a \<^typ>\<open>string\<close>, that is a list
  of 8-bit characters: the model covers the strings whose UTF-16 code units are all below
  256 (Latin-1). On those, \<open>toLowerCase\<close> keeps the length, and the white space of
  \<open>trim\<close> and of the regular expression class \<open>\s\<close> is TAB, LF, VT, FF, CR, SPACE and
  NBSP.
\<close>

definition toLowerCase_char :: "char \<Rightarrow> char" where
  "toLowerCase_char c =
     (let n = (of_char c :: nat) in
      if (65 \<le> n \<and> n \<le> 90) \<or> (192 \<le> n \<and> n \<le> 222 \<and> n \<noteq> 215)
      then (case c of Char b0 b1 b2 b3 b4 b5 b6 b7 \<Rightarrow> Char b0 b1 b2 b3 b4 True b6 b7)
      else c)"

definition toLowerCase :: "string \<Rightarrow> string" where
  "toLowerCase s = map toLowerCase_char s"

definition startsWith :: "string \<Rightarrow> string \<Rightarrow> bool" where
  "startsWith s p = (take (length p) s = p)"

definition isWhiteSpace :: "char \<Rightarrow> bool" where
  "isWhiteSpace c = ((of_char c :: nat) \<in> set [9, 10, 11, 12, 13, 32, 160])"

definition trim :: "string \<Rightarrow> string" where
  "trim s = rev (dropWhile isWhiteSpace (rev (dropWhile isWhiteSpace s)))"

section \<open>Citation deduplication (AskAI.tsx)\<close>

record citation =
  content :: string
  document_title :: string
  document_source :: string
  document_url :: "string option"
  chunk_index :: int

text \<open>The key of the loop body: the template literal
  \<^verbatim>\<open>`${citation.document_title}|${citation.document_source}`\<close>.\<close>

definition citation_key :: "citation \<Rightarrow> string" where
  "citation_key c = document_title c @ ''|'' @ document_source c"

text \<open>The \<^verbatim>\<open>for ... of\<close> loop of \<open>deduplicateCitations\<close>, with its two local
  variables \<open>seen\<close> (a \<open>Set<string>\<close>) and \<open>unique\<close> (an array, extended by \<open>push\<close>).\<close>

fun dedupe_loop :: "citation list \<Rightarrow> string set \<Rightarrow> citation list \<Rightarrow> citation list" where
  "dedupe_loop [] seen unique = unique"
| "dedupe_loop (c # cs) seen unique =
     (if citation_key c \<notin> seen
      then dedupe_loop cs (insert (citation_key c) seen) (unique @ [c])
      else dedupe_loop cs seen unique)"

text \<open>The argument has type \<open>Message['citations']\<close>, an optional array: \<open>None\<close> is
  \<open>undefined\<close>.\<close>

definition deduplicateCitations :: "citation list option \<Rightarrow> citation list" where
  "deduplicateCitations citations =
     (case citations of
        None \<Rightarrow> []
      | Some cs \<Rightarrow> if length cs = 0 then [] else dedupe_loop cs {} [])"

section \<open>The chat page (AskAI.tsx) and the search API (services/api.ts)\<close>

text \<open>The body that \<open>searchAPI.query\<close> posts to \<open>/search/query\<close>:
  \<^verbatim>\<open>{ question, top_k: topK }\<close>.\<close>

record query_request =
  body_question :: string
  top_k :: int

text \<open>\<open>query: async (question: string, topK: number = 5)\<close>: the default of a parameter
  is taken when the caller passes no argument (\<open>None\<close>).\<close>

definition searchAPI_query :: "string \<Rightarrow> int option \<Rightarrow> query_request" where
  "searchAPI_query q topK =
     \<lparr>body_question = q, top_k = (case topK of None \<Rightarrow> 5 | Some k \<Rightarrow> k)\<rparr>"

record query_response =
  answer :: string
  response_citations :: "citation list option"

text \<open>What the \<open>catch\<close> block reads of a rejected call: \<open>error?.response?.data?.detail\<close>
  and \<open>error?.message\<close>, each possibly absent.\<close>

record api_error =
  response_data_detail :: "string option"
  error_message :: "string option"

datatype role = User | Assistant

record message =
  role :: role
  message_content :: string
  citations :: "citation list option"

text \<open>The three \<open>useState\<close> cells of the page, and the requests posted so far (the
  observable trace of \<open>apiClient.post\<close>).\<close>

record askai =
  question :: string
  messages :: "message list"
  isLoading :: bool
  posted :: "query_request list"

text \<open>A string operand of \<open>||\<close> is passed over when it is absent or empty.\<close>

fun truthy :: "string option \<Rightarrow> string option" where
  "truthy None = None"
| "truthy (Some s) = (if s = [] then None else Some s)"

definition errorDetails :: "api_error \<Rightarrow> string" where
  "errorDetails error =
     (case truthy (response_data_detail error) of
        Some detail \<Rightarrow> detail
      | None \<Rightarrow> (case truthy (error_message error) of
                  Some m \<Rightarrow> m
                | None \<Rightarrow> ''Unknown error''))"

text \<open>\<open>handleQuery\<close> up to its \<open>await\<close>: the guard, the user message, the cleared input,
  the loading flag and the call \<open>searchAPI.query(query)\<close>. \<open>None\<close> is the early
  \<open>return\<close>.\<close>

definition handleQuery_send :: "string \<Rightarrow> askai \<Rightarrow> askai option" where
  "handleQuery_send query s =
     (if trim query = [] \<or> isLoading s then None
      else Some (s\<lparr>messages := messages s @
                       [\<lparr>role = User, message_content = query, citations = None\<rparr>],
                    question := [],
                    isLoading := True,
                    posted := posted s @ [searchAPI_query query None]\<rparr>))"

text \<open>\<open>handleQuery\<close> after the \<open>await\<close>: the \<open>try\<close> branch on a response (\<open>Inr\<close>), the
  \<open>catch\<close> branch on a rejection (\<open>Inl\<close>), then \<open>finally\<close>.\<close>

definition handleQuery_settle :: "api_error + query_response \<Rightarrow> askai \<Rightarrow> askai" where
  "handleQuery_settle result s =
     (case result of
        Inr response \<Rightarrow>
          s\<lparr>messages := messages s @
               [\<lparr>role = Assistant, message_content = answer response,
                 citations = Some (deduplicateCitations (response_citations response))\<rparr>]\<rparr>
      | Inl error \<Rightarrow>
          s\<lparr>messages := messages s @
               [\<lparr>role = Assistant,
                 message_content =
                   ''Sorry, I encountered an error while processing your question: '' @
                   errorDetails error @ ''. Please try again.'',
                 citations = None\<rparr>]\<rparr>)
     \<lparr>isLoading := False\<rparr>"

definition handleQuery :: "api_error + query_response \<Rightarrow> string \<Rightarrow> askai \<Rightarrow> askai" where
  "handleQuery result query s =
     (case handleQuery_send query s of
        None \<Rightarrow> s
      | Some s1 \<Rightarrow> handleQuery_settle result s1)"

text \<open>The render loop over \<open>messages\<close> computes, for each message,
  \<open>const uniqueCitations = deduplicateCitations(message.citations)\<close> and lists those.\<close>

definition uniqueCitations :: "message \<Rightarrow> citation list" where
  "uniqueCitations m = deduplicateCitations (citations m)"

section \<open>The admin pages (Monitor and AdminDashboard)\<close>

text \<open>
  An origin as the pages read it from \<open>adminAPI.getOrigins\<close>. The field \<open>id\<close> of
  the source is \<open>origin_id\<close> here. \<open>last_run\<close> is \<open>null\<close> (\<open>None\<close>) or a timestamp, which
  the pages turn into a \<open>Date\<close> with \<open>new Date(o.last_run)\<close>: the model holds that date
  as milliseconds since the epoch, so it covers the origins whose \<open>last_run\<close> is a valid
  date. \<open>last_status\<close> is \<open>null\<close> or a string.
\<close>

record origin =
  origin_id :: int
  name :: string
  url :: string
  frequency_hours :: int
  enabled :: bool
  last_run :: "int option"
  last_status :: "string option"
  qdrant_status :: "string option"

subsection \<open>Triggering a crawl\<close>

text \<open>
  What a page holds and does around a crawl: the \<open>useState\<close> cell \<open>crawlingIds\<close>, the
  calls \<open>crawlMutation.mutate(origin.id)\<close> made so far (each one posts to
  \<open>/admin/origins/{id}/crawl\<close>), and the \<open>alert\<close> boxes shown so far. A handler reads the
  \<open>crawlingIds\<close> of the render that created it; the model takes them to be the current
  ones, that is, the page has been rendered again since the last update.
\<close>

record crawl_page =
  crawlingIds :: "int set"
  triggered :: "int list"
  alerts :: "string list"

text \<open>\<open>handleCrawl\<close> of the Monitor page.\<close>

definition Monitor_handleCrawl :: "origin \<Rightarrow> crawl_page \<Rightarrow> crawl_page" where
  "Monitor_handleCrawl origin s =
     (if origin_id origin \<in> crawlingIds s \<or> \<not> enabled origin then s
      else s\<lparr>crawlingIds := insert (origin_id origin) (crawlingIds s),
             triggered := triggered s @ [origin_id origin]\<rparr>)"

text \<open>\<open>handleCrawl\<close> of the AdminDashboard page.\<close>

definition AdminDashboard_handleCrawl :: "origin \<Rightarrow> crawl_page \<Rightarrow> crawl_page" where
  "AdminDashboard_handleCrawl origin s =
     (if origin_id origin \<in> crawlingIds s then s
      else s\<lparr>crawlingIds := insert (origin_id origin) (crawlingIds s),
             triggered := triggered s @ [origin_id origin]\<rparr>)"

text \<open>The callbacks of \<open>crawlMutation\<close>. Those of the Monitor page only take the id out
  of \<open>crawlingIds\<close>; those of the AdminDashboard page also show an \<open>alert\<close>.\<close>

record crawl_reply =
  success :: bool
  reply_message :: string

definition Monitor_crawl_settled :: "int \<Rightarrow> crawl_page \<Rightarrow> crawl_page" where
  "Monitor_crawl_settled originId s = s\<lparr>crawlingIds := crawlingIds s - {originId}\<rparr>"

definition AdminDashboard_crawl_onSuccess :: "crawl_reply \<Rightarrow> int \<Rightarrow> crawl_page \<Rightarrow> crawl_page" where
  "AdminDashboard_crawl_onSuccess data originId s =
     s\<lparr>crawlingIds := crawlingIds s - {originId},
       alerts := alerts s @
         [if success data then ''Crawl successful: '' @ reply_message data
          else ''Crawl failed: '' @ reply_message data]\<rparr>"

definition AdminDashboard_crawl_onError :: "api_error \<Rightarrow> int \<Rightarrow> crawl_page \<Rightarrow> crawl_page" where
  "AdminDashboard_crawl_onError error originId s =
     s\<lparr>crawlingIds := crawlingIds s - {originId},
       alerts := alerts s @ [''Crawl error: '' @ errorDetails error]\<rparr>"

text \<open>
  The Crawl button of a table row: its \<open>disabled\<close> attribute and its label. The
  \<open>Button\<close> component hands \<open>disabled\<close> to the HTML \<open>button\<close> element, and a disabled
  button delivers no click to \<open>onClick\<close>.
\<close>

record button =
  disabled :: bool
  label :: string

definition Monitor_crawl_button :: "origin \<Rightarrow> crawl_page \<Rightarrow> button" where
  "Monitor_crawl_button origin s =
     \<lparr>disabled = (origin_id origin \<in> crawlingIds s \<or> \<not> enabled origin),
      label = (if origin_id origin \<in> crawlingIds s then ''Crawling...'' else ''Crawl'')\<rparr>"

definition AdminDashboard_crawl_button :: "origin \<Rightarrow> crawl_page \<Rightarrow> button" where
  "AdminDashboard_crawl_button origin s =
     \<lparr>disabled = (origin_id origin \<in> crawlingIds s \<or> \<not> enabled origin),
      label = (if origin_id origin \<in> crawlingIds s then ''Crawling...'' else ''Crawl Now'')\<rparr>"

definition Monitor_click_crawl :: "origin \<Rightarrow> crawl_page \<Rightarrow> crawl_page" where
  "Monitor_click_crawl origin s =
     (if disabled (Monitor_crawl_button origin s) then s else Monitor_handleCrawl origin s)"

definition AdminDashboard_click_crawl :: "origin \<Rightarrow> crawl_page \<Rightarrow> crawl_page" where
  "AdminDashboard_click_crawl origin s =
     (if disabled (AdminDashboard_crawl_button origin s) then s
      else AdminDashboard_handleCrawl origin s)"

subsection \<open>Reading the composite status\<close>

text \<open>\<open>s.split(sep)\<close> for a one-character separator: the pieces between the separators,
  at least one piece.\<close>

fun split_on :: "char \<Rightarrow> string \<Rightarrow> string list" where
  "split_on sep [] = [[]]"
| "split_on sep (c # cs) =
     (if c = sep then [] # split_on sep cs
      else (case split_on sep cs of
              [] \<Rightarrow> [[c]]
            | p # ps \<Rightarrow> (c # p) # ps))"

text \<open>A literal of a regular expression under the flag \<open>i\<close>, matched at the start of
  \<open>s\<close>: the rest of \<open>s\<close> after it. The literal is given in lower case.\<close>

definition match_literal_i :: "string \<Rightarrow> string \<Rightarrow> string option" where
  "match_literal_i lit s =
     (if startsWith (toLowerCase s) lit then Some (drop (length lit) s) else None)"

text \<open>\<^verbatim>\<open>p.replace(/^crawl:\s*failed:?\s*/i, '')\<close>: the match is cut off the start of
  \<open>p\<close>; without a match \<open>p\<close> is returned as it is. Each \<^verbatim>\<open>\s*\<close> takes all the white
  space there is, and \<^verbatim>\<open>:?\<close> takes a colon when there is one.\<close>

definition replace_crawl_failed :: "string \<Rightarrow> string" where
  "replace_crawl_failed p =
     (case match_literal_i ''crawl:'' p of
        None \<Rightarrow> p
      | Some r1 \<Rightarrow>
          (case match_literal_i ''failed'' (dropWhile isWhiteSpace r1) of
             None \<Rightarrow> p
           | Some r2 \<Rightarrow>
               dropWhile isWhiteSpace
                 (case r2 of
                    [] \<Rightarrow> []
                  | c # r3 \<Rightarrow> if c = CHR '':'' then r3 else r2)))"

record crawl_status =
  status :: string
  error :: "string option"

text \<open>\<open>parseCrawlStatus\<close>, the same function text on both pages. \<open>!lastStatus\<close> holds
  for \<open>null\<close> and for the empty string.\<close>

definition parseCrawlStatus :: "string option \<Rightarrow> crawl_status" where
  "parseCrawlStatus lastStatus =
     (case truthy lastStatus of
        None \<Rightarrow> \<lparr>status = ''never'', error = None\<rparr>
      | Some ls \<Rightarrow>
          if startsWith (toLowerCase ls) ''crawl: success''
          then \<lparr>status = ''success'', error = None\<rparr>
          else if startsWith (toLowerCase ls) ''crawl: failed''
          then (let parts = split_on (CHR '','') ls;
                    crawlPart = find (\<lambda>p. startsWith (toLowerCase p) ''crawl:'') parts;
                    err = (case crawlPart of
                             Some p \<Rightarrow> trim (replace_crawl_failed p)
                           | None \<Rightarrow> ''Unknown error'')
                in \<lparr>status = ''failed'', error = Some err\<rparr>)
          else \<lparr>status = ''unknown'', error = None\<rparr>)"

subsection \<open>Statistics and activity feed of the Monitor page\<close>

record stats_record =
  total_count :: nat
  enabled_count :: nat
  successful :: nat
  failed :: nat

text \<open>The \<open>useMemo\<close> body of \<open>stats\<close>. \<open>now\<close> is \<open>new Date()\<close> in milliseconds;
  \<open>origins\<close> is \<open>undefined\<close> (\<open>None\<close>) until the first fetch returns. The fields
  \<open>total\<close> and \<open>enabled\<close> of the result are \<open>total_count\<close> and \<open>enabled_count\<close>
  here, and the bound variable \<open>o\<close> of the callbacks is \<open>og\<close>.\<close>

definition stats :: "int \<Rightarrow> origin list option \<Rightarrow> stats_record option" where
  "stats now origins =
     (case origins of
        None \<Rightarrow> None
      | Some os \<Rightarrow>
          (let last24h = now - 24 * 60 * 60 * 1000 in
           Some \<lparr>total_count = length os,
                 enabled_count = length (filter enabled os),
                 successful = length (filter (\<lambda>og.
                   (case last_run og of
                      None \<Rightarrow> False
                    | Some lastRun \<Rightarrow>
                        lastRun \<ge> last24h \<and>
                        (case last_status og of
                           None \<Rightarrow> False
                         | Some st \<Rightarrow> startsWith (toLowerCase st) ''success''))) os),
                 failed = length (filter (\<lambda>og.
                   (case last_run og of
                      None \<Rightarrow> False
                    | Some lastRun \<Rightarrow>
                        lastRun \<ge> last24h \<and>
                        (case last_status og of
                           None \<Rightarrow> False
                         | Some st \<Rightarrow> startsWith (toLowerCase st) ''failed''))) os)\<rparr>))"

record activity =
  activity_id :: int
  activity_name :: string
  timestamp :: int
  activity_status :: "string option"
  activity_enabled :: bool

text \<open>The \<open>useMemo\<close> body of \<open>activityFeed\<close>: \<open>filter\<close>, \<open>map\<close>, \<open>sort\<close> with the comparator
  \<open>b.timestamp.getTime() - a.timestamp.getTime()\<close>, \<open>slice(0, 20)\<close>. \<open>Array.prototype.sort\<close>
  is stable; \<^const>\<open>sort_key\<close> is the stable insertion sort, here on the negated
  timestamp. (\<open>new Date(null)\<close> is the epoch, which the \<open>filter\<close> keeps out of reach.)\<close>

definition activityFeed :: "origin list option \<Rightarrow> activity list" where
  "activityFeed origins =
     (case origins of
        None \<Rightarrow> []
      | Some os \<Rightarrow>
          take 20
            (sort_key (\<lambda>a. - timestamp a)
              (map (\<lambda>og. \<lparr>activity_id = origin_id og,
                         activity_name = name og,
                         timestamp = (case last_run og of None \<Rightarrow> 0 | Some t \<Rightarrow> t),
                         activity_status = last_status og,
                         activity_enabled = enabled og\<rparr>)
                (filter (\<lambda>og. last_run og \<noteq> None) os))))"

text \<open>
  The conditions of the 24-hour statistics, in the words of their description.
  \<open>ran_within_past_24h\<close>: the origin has a \<open>last_run\<close>, and it lies within the past 24
  hours (86400000 ms), that is, between \<open>now - 24h\<close> and \<open>now\<close>.
  \<open>ran_at_most_24h_before\<close>: the origin has a \<open>last_run\<close>, and it lies no more than 24
  hours before \<open>now\<close>, with no bound on the other side.
  \<open>status_has_prefix\<close>: the origin has a \<open>last_status\<close>, and it begins, lowercased, with
  the literal \<open>p\<close>.
\<close>

definition ran_within_past_24h :: "int \<Rightarrow> origin \<Rightarrow> bool" where
  "ran_within_past_24h now og =
     (case last_run og of None \<Rightarrow> False | Some t \<Rightarrow> now - 86400000 \<le> t \<and> t \<le> now)"

definition ran_at_most_24h_before :: "int \<Rightarrow> origin \<Rightarrow> bool" where
  "ran_at_most_24h_before now og =
     (case last_run og of None \<Rightarrow> False | Some t \<Rightarrow> now - t \<le> 86400000)"

definition status_has_prefix :: "string \<Rightarrow> origin \<Rightarrow> bool" where
  "status_has_prefix p og =
     (case last_status og of None \<Rightarrow> False | Some st \<Rightarrow> take (length p) (toLowerCase st) = p)"

section \<open>The deduplication in the words of its contract\<close>

text \<open>
  "Unique citations, original relative order preserved, first occurrence wins", for any
  key \<open>k\<close>: the first element is kept, every later element with its key is dropped, and the
  rest is treated the same way. \<open>title_source\<close> is the key of the contract, the pair
  (document title, document source).
\<close>

fun first_occurrences :: "('a \<Rightarrow> 'k) \<Rightarrow> 'a list \<Rightarrow> 'a list" where
  "first_occurrences k [] = []"
| "first_occurrences k (x # xs) = x # first_occurrences k (filter (\<lambda>y. k y \<noteq> k x) xs)"

definition title_source :: "citation \<Rightarrow> string \<times> string" where
  "title_source c = (document_title c, document_source c)"

section \<open>Properties of the deduplication\<close>

lemma dedupe_loop_append:
  "dedupe_loop cs seen unique = unique @ dedupe_loop cs seen []"
proof (induction cs arbitrary: seen unique)
  case Nil
  show ?case by simp
next
  case (Cons c cs)
  have step: "dedupe_loop cs (insert (citation_key c) seen) (unique @ [c]) =
      unique @ c # dedupe_loop cs (insert (citation_key c) seen) []"
    using Cons.IH [of "insert (citation_key c) seen" "unique @ [c]"]
      Cons.IH [of "insert (citation_key c) seen" "[c]"] by simp
  show ?case
    using step Cons.IH [of seen unique] Cons.IH [of "insert (citation_key c) seen" "[c]"]
    by simp
qed

text \<open>The loop is a filter: a citation is kept when its key is neither in \<open>seen\<close> nor the
  key of an earlier citation of the input.\<close>

lemma dedupe_loop_keys_fresh:
  "citation_key ` set (dedupe_loop cs seen []) \<inter> seen = {}"
proof (induction cs arbitrary: seen)
  case Nil
  show ?case by simp
next
  case (Cons c cs)
  show ?case
  proof (cases "citation_key c \<in> seen")
    case True
    then show ?thesis using Cons.IH [of seen] by simp
  next
    case False
    have "dedupe_loop (c # cs) seen [] = c # dedupe_loop cs (insert (citation_key c) seen) []"
      using False dedupe_loop_append [of cs "insert (citation_key c) seen" "[c]"] by simp
    then show ?thesis
      using False Cons.IH [of "insert (citation_key c) seen"] by auto
  qed
qed

lemma dedupe_loop_keys_distinct:
  "distinct (map citation_key (dedupe_loop cs seen []))"
proof (induction cs arbitrary: seen)
  case Nil
  show ?case by simp
next
  case (Cons c cs)
  show ?case
  proof (cases "citation_key c \<in> seen")
    case True
    then show ?thesis using Cons.IH [of seen] by simp
  next
    case False
    have eq: "dedupe_loop (c # cs) seen [] = c # dedupe_loop cs (insert (citation_key c) seen) []"
      using False dedupe_loop_append [of cs "insert (citation_key c) seen" "[c]"] by simp
    have "citation_key c \<notin> citation_key ` set (dedupe_loop cs (insert (citation_key c) seen) [])"
      using dedupe_loop_keys_fresh [of cs "insert (citation_key c) seen"] by auto
    then show ?thesis
      using eq Cons.IH [of "insert (citation_key c) seen"] by simp
  qed
qed

lemma dedupe_loop_fixed:
  "distinct (map citation_key cs) \<Longrightarrow> citation_key ` set cs \<inter> seen = {} \<Longrightarrow>
   dedupe_loop cs seen [] = cs"
proof (induction cs arbitrary: seen)
  case Nil
  show ?case by simp
next
  case (Cons c cs)
  have notin: "citation_key c \<notin> seen" using Cons.prems(2) by auto
  have d: "distinct (map citation_key cs)" using Cons.prems(1) by simp
  have fresh: "citation_key ` set cs \<inter> insert (citation_key c) seen = {}"
    using Cons.prems by auto
  have "dedupe_loop (c # cs) seen [] = c # dedupe_loop cs (insert (citation_key c) seen) []"
    using notin dedupe_loop_append [of cs "insert (citation_key c) seen" "[c]"] by simp
  then show ?case using Cons.IH [OF d fresh] by simp
qed

lemma deduplicateCitations_Some:
  "deduplicateCitations (Some cs) = dedupe_loop cs {} []"
  by (cases cs) (simp_all add: deduplicateCitations_def)

text \<open>
  Claim C3. \<open>deduplicateCitations\<close> is idempotent: deduplicating a list that is already
  the result of a deduplication returns it unchanged. So the two applications on the
  page agree with one: \<open>handleQuery\<close> stores \<open>deduplicateCitations(response.citations)\<close> in
  the assistant message it appends, and the render loop, which applies
  \<open>deduplicateCitations\<close> to the stored \<open>message.citations\<close> again, lists for that message
  exactly \<open>deduplicateCitations(response.citations)\<close>. The function is a HOL function of
  its argument alone, which is the purity of the source (it reads and writes nothing but
  its two local variables).
\<close>

theorem deduplicateCitations_idempotent:
  "deduplicateCitations (Some (deduplicateCitations cits)) = deduplicateCitations cits
   \<and> map uniqueCitations (messages (handleQuery_settle (Inr response) s))
     = map uniqueCitations (messages s) @ [deduplicateCitations (response_citations response)]"
proof -
  have twice: "deduplicateCitations (Some (deduplicateCitations c)) = deduplicateCitations c"
    for c
  proof (cases c)
    case None
    then show ?thesis by (simp add: deduplicateCitations_def)
  next
    case (Some cs)
    have "dedupe_loop (dedupe_loop cs {} []) {} [] = dedupe_loop cs {} []"
      by (rule dedupe_loop_fixed) (simp_all add: dedupe_loop_keys_distinct)
    then show ?thesis using Some by (simp add: deduplicateCitations_Some)
  qed
  have stored: "messages (handleQuery_settle (Inr response) s) =
      messages s @
        [\<lparr>role = Assistant, message_content = answer response,
          citations = Some (deduplicateCitations (response_citations response))\<rparr>]"
    by (simp add: handleQuery_settle_def)
  show ?thesis
    by (simp add: stored twice uniqueCitations_def)
qed

text \<open>
  Claim C1, at the input where the code departs from it. The claim keys the result on
  the pair (document title, document source); the loop keys it on the joined string
  \<open>title|source\<close>. The two citations below have different pairs and the same joined
  string \<open>AI Act|EU|2024\<close>: the second one is dropped, so the result holds no citation
  for the pair \<open>(AI Act, EU|2024)\<close> of the input.
\<close>

theorem deduplicateCitations_drops_distinct_pair:
  "deduplicateCitations (Some
     [\<lparr>content = ''first'', document_title = ''AI Act|EU'', document_source = ''2024'',
        document_url = None, chunk_index = 0\<rparr>,
      \<lparr>content = ''second'', document_title = ''AI Act'', document_source = ''EU|2024'',
        document_url = None, chunk_index = 0\<rparr>])
   = [\<lparr>content = ''first'', document_title = ''AI Act|EU'', document_source = ''2024'',
        document_url = None, chunk_index = 0\<rparr>]"
  by (simp add: deduplicateCitations_def citation_key_def)

text \<open>
  Claim C2, at the input where the code departs from it. Two citations count as
  duplicates in the loop exactly when their joined keys are equal. The citations
  \<open>(a|b, c)\<close> and \<open>(a, b|c)\<close> differ in title and in source, have the same key
  \<open>a|b|c\<close>, and are collapsed into the one that comes first.
\<close>

theorem citation_key_collision:
  "citation_key \<lparr>content = ''x'', document_title = ''a|b'', document_source = ''c'',
       document_url = None, chunk_index = 1\<rparr>
   = citation_key \<lparr>content = ''y'', document_title = ''a'', document_source = ''b|c'',
       document_url = None, chunk_index = 2\<rparr>
   \<and> (''a|b'', ''c'') \<noteq> (''a'', ''b|c'')
   \<and> length (deduplicateCitations (Some
        [\<lparr>content = ''x'', document_title = ''a|b'', document_source = ''c'',
           document_url = None, chunk_index = 1\<rparr>,
         \<lparr>content = ''y'', document_title = ''a'', document_source = ''b|c'',
           document_url = None, chunk_index = 2\<rparr>])) = 1"
  by (simp add: deduplicateCitations_def citation_key_def)

subsection \<open>The loop against the contract\<close>

lemma dedupe_loop_first_occurrences:
  "dedupe_loop cs seen [] =
     first_occurrences citation_key (filter (\<lambda>c. citation_key c \<notin> seen) cs)"
proof (induction "length cs" arbitrary: cs seen rule: less_induct)
  case less
  show ?case
  proof (cases cs)
    case Nil
    then show ?thesis by simp
  next
    case (Cons c cs')
    show ?thesis
    proof (cases "citation_key c \<in> seen")
      case True
      then show ?thesis using Cons less [of cs' seen] by simp
    next
      case False
      have "dedupe_loop cs seen [] = c # dedupe_loop cs' (insert (citation_key c) seen) []"
        using Cons False dedupe_loop_append [of cs' "insert (citation_key c) seen" "[c]"]
        by simp
      also have "dedupe_loop cs' (insert (citation_key c) seen) [] =
          first_occurrences citation_key
            (filter (\<lambda>d. citation_key d \<notin> insert (citation_key c) seen) cs')"
        using less [of cs' "insert (citation_key c) seen"] Cons by simp
      also have "filter (\<lambda>d. citation_key d \<notin> insert (citation_key c) seen) cs' =
          filter (\<lambda>d. citation_key d \<noteq> citation_key c)
            (filter (\<lambda>d. citation_key d \<notin> seen) cs')"
        by (auto intro: filter_cong)
      finally show ?thesis using Cons False by simp
    qed
  qed
qed

lemma first_occurrences_cong:
  "(\<And>x y. x \<in> set xs \<Longrightarrow> y \<in> set xs \<Longrightarrow> (k x = k y) = (k' x = k' y)) \<Longrightarrow>
   first_occurrences k xs = first_occurrences k' xs"
proof (induction k xs rule: first_occurrences.induct)
  case (1 k)
  show ?case by simp
next
  case (2 k x xs)
  have same_rest: "filter (\<lambda>y. k y \<noteq> k x) xs = filter (\<lambda>y. k' y \<noteq> k' x) xs"
    using "2.prems" by (auto intro!: filter_cong)
  have "first_occurrences k (filter (\<lambda>y. k y \<noteq> k x) xs) =
      first_occurrences k' (filter (\<lambda>y. k y \<noteq> k x) xs)"
    by (rule "2.IH") (use "2.prems" in auto)
  then show ?case using same_rest by simp
qed

text \<open>Without a \<open>|\<close> in the titles the joined key stands for the pair.\<close>

lemma citation_key_eq_iff:
  assumes "CHR ''|'' \<notin> set (document_title c)" and "CHR ''|'' \<notin> set (document_title d)"
  shows "(citation_key c = citation_key d) = (title_source c = title_source d)"
proof
  assume eq: "citation_key c = citation_key d"
  have "takeWhile (\<lambda>x. x \<noteq> CHR ''|'') (citation_key c) = document_title c"
    unfolding citation_key_def using assms(1) by (subst takeWhile_append2) auto
  moreover have "takeWhile (\<lambda>x. x \<noteq> CHR ''|'') (citation_key d) = document_title d"
    unfolding citation_key_def using assms(2) by (subst takeWhile_append2) auto
  ultimately have titles: "document_title c = document_title d"
    using eq by simp
  then have "document_source c = document_source d"
    using eq by (simp add: citation_key_def)
  then show "title_source c = title_source d"
    using titles by (simp add: title_source_def)
next
  assume "title_source c = title_source d"
  then show "citation_key c = citation_key d"
    by (simp add: title_source_def citation_key_def)
qed

lemma distinct_keys_pairs:
  "distinct (map citation_key xs) \<Longrightarrow> distinct (map title_source xs)"
proof (induction xs)
  case Nil
  show ?case by simp
next
  case (Cons x xs)
  have "title_source x \<notin> title_source ` set xs"
  proof
    assume "title_source x \<in> title_source ` set xs"
    then obtain y where "y \<in> set xs" and "title_source x = title_source y"
      by auto
    then have "citation_key x \<in> citation_key ` set xs"
      by (auto simp: citation_key_def title_source_def image_iff intro!: bexI [of _ y])
    then show False using Cons.prems by simp
  qed
  then show ?case using Cons by simp
qed

text \<open>
  The example of the contract: for a title \<open>T\<close> with the sources \<open>A, A, B, A\<close>, where \<open>A\<close>
  and \<open>B\<close> differ, the result is the first and the third citation, in that order,
  whatever the contents, URLs and chunk indices are.
\<close>

theorem deduplicateCitations_example:
  "A \<noteq> B \<Longrightarrow>
   deduplicateCitations (Some
     [\<lparr>content = c1, document_title = T, document_source = A, document_url = u1,
        chunk_index = i1\<rparr>,
      \<lparr>content = c2, document_title = T, document_source = A, document_url = u2,
        chunk_index = i2\<rparr>,
      \<lparr>content = c3, document_title = T, document_source = B, document_url = u3,
        chunk_index = i3\<rparr>,
      \<lparr>content = c4, document_title = T, document_source = A, document_url = u4,
        chunk_index = i4\<rparr>])
   = [\<lparr>content = c1, document_title = T, document_source = A, document_url = u1,
        chunk_index = i1\<rparr>,
      \<lparr>content = c3, document_title = T, document_source = B, document_url = u3,
        chunk_index = i3\<rparr>]"
  by (simp add: deduplicateCitations_def citation_key_def)

theorem deduplicateCitations_example_witness:
  "''EUR-Lex'' \<noteq> ''Wikipedia''
   \<and> map chunk_index (deduplicateCitations (Some
     [\<lparr>content = ''a'', document_title = ''AI Act'', document_source = ''EUR-Lex'',
        document_url = None, chunk_index = 4\<rparr>,
      \<lparr>content = ''b'', document_title = ''AI Act'', document_source = ''EUR-Lex'',
        document_url = None, chunk_index = 9\<rparr>,
      \<lparr>content = ''c'', document_title = ''AI Act'', document_source = ''Wikipedia'',
        document_url = None, chunk_index = 0\<rparr>,
      \<lparr>content = ''d'', document_title = ''AI Act'', document_source = ''EUR-Lex'',
        document_url = None, chunk_index = 1\<rparr>])) = [4, 0]"
proof -
  have differ: "''EUR-Lex'' \<noteq> ''Wikipedia''"
    by simp
  show ?thesis
    using differ
      deduplicateCitations_example [OF differ, of "''a''" "''AI Act''" None 4 "''b''" None 9
        "''c''" None 0 "''d''" None 1]
    by simp
qed

text \<open>
  On citations whose titles hold no \<open>|\<close> the function meets its contract: it returns
  the first citation of every distinct (title, source) pair, in the order of the input.
\<close>

theorem deduplicateCitations_first_per_pair:
  "\<forall>c \<in> set cs. CHR ''|'' \<notin> set (document_title c) \<Longrightarrow>
   deduplicateCitations (Some cs) = first_occurrences title_source cs"
proof -
  assume no_bar: "\<forall>c \<in> set cs. CHR ''|'' \<notin> set (document_title c)"
  have "deduplicateCitations (Some cs) = first_occurrences citation_key cs"
    by (simp add: deduplicateCitations_Some dedupe_loop_first_occurrences)
  also have "\<dots> = first_occurrences title_source cs"
    by (rule first_occurrences_cong) (use no_bar citation_key_eq_iff in blast)
  finally show ?thesis .
qed

theorem deduplicateCitations_first_per_pair_witness:
  "deduplicateCitations (Some
      [\<lparr>content = ''a'', document_title = ''AI Act'', document_source = ''EU|2024'',
         document_url = None, chunk_index = 4\<rparr>,
       \<lparr>content = ''b'', document_title = ''AI Act'', document_source = ''EU|2024'',
         document_url = None, chunk_index = 9\<rparr>])
   = [\<lparr>content = ''a'', document_title = ''AI Act'', document_source = ''EU|2024'',
         document_url = None, chunk_index = 4\<rparr>]"
proof -
  have no_bar: "\<forall>c \<in> set
      [\<lparr>content = ''a'', document_title = ''AI Act'', document_source = ''EU|2024'',
         document_url = None, chunk_index = 4\<rparr>,
       \<lparr>content = ''b'', document_title = ''AI Act'', document_source = ''EU|2024'',
         document_url = None, chunk_index = 9\<rparr>]. CHR ''|'' \<notin> set (document_title c)"
    by simp
  show ?thesis
    using no_bar deduplicateCitations_first_per_pair [OF no_bar]
    by (simp add: title_source_def)
qed

text \<open>
  Two citations with the same (title, source) pair are always collapsed, whatever their
  content and chunk index: no pair occurs twice in a result.
\<close>

theorem deduplicateCitations_pairs_distinct:
  "distinct (map title_source (deduplicateCitations cits))"
proof (cases cits)
  case None
  then show ?thesis by (simp add: deduplicateCitations_def)
next
  case (Some cs)
  have "distinct (map citation_key (dedupe_loop cs {} []))"
    by (rule dedupe_loop_keys_distinct)
  then have "distinct (map title_source (dedupe_loop cs {} []))"
    by (rule distinct_keys_pairs)
  then show ?thesis using Some by (simp add: deduplicateCitations_Some)
qed

section \<open>Properties of the chat page\<close>

text \<open>
  Claim C6. Called without a \<open>topK\<close> argument, \<open>searchAPI.query\<close> posts \<open>top_k = 5\<close>; and
  \<open>handleQuery\<close>, the only caller on the chat page, passes the query alone, so the one
  request a call of \<open>handleQuery\<close> posts (when its guard lets the query through: the query
  is not blank and no other query is loading) asks for exactly 5 results, whatever the
  server then answers.
\<close>

theorem handleQuery_posts_top_k_5:
  "top_k (searchAPI_query q None) = 5 \<and>
   posted (handleQuery result query s) =
     (if trim query = [] \<or> isLoading s then posted s
      else posted s @ [\<lparr>body_question = query, top_k = 5\<rparr>])"
  by (cases result)
     (simp_all add: searchAPI_query_def handleQuery_def handleQuery_send_def
        handleQuery_settle_def)

theorem handleQuery_posts_top_k_5_witness:
  "top_k (searchAPI_query ''What is the AI Act?'' None) = 5 \<and>
   posted (handleQuery (Inr \<lparr>answer = ''A regulation.'', response_citations = None\<rparr>)
       ''What is the AI Act?''
       \<lparr>question = ''What is the AI Act?'', messages = [], isLoading = False, posted = []\<rparr>) =
     [\<lparr>body_question = ''What is the AI Act?'', top_k = 5\<rparr>]"
  using handleQuery_posts_top_k_5 [of "''What is the AI Act?''"
     "Inr \<lparr>answer = ''A regulation.'', response_citations = None\<rparr>"
     "''What is the AI Act?''"
     "\<lparr>question = ''What is the AI Act?'', messages = [], isLoading = False, posted = []\<rparr>"]
  by (simp add: trim_def isWhiteSpace_def)

text \<open>
  Claim C7 as stated fails: the notice is not generic. The \<open>catch\<close> block puts the
  backend's error detail into the message word for word. Here the server rejects the call
  with the detail \<open>OpenAI API key sk-123 rejected\<close>, and the assistant message shown to the
  user carries that text.
\<close>

theorem handleQuery_error_shows_detail:
  "messages (handleQuery
      (Inl \<lparr>response_data_detail = Some ''OpenAI API key sk-123 rejected'',
            error_message = Some ''Request failed with status code 500''\<rparr>)
      ''q'' \<lparr>question = ''q'', messages = [], isLoading = False, posted = []\<rparr>)
   = [\<lparr>role = User, message_content = ''q'', citations = None\<rparr>,
      \<lparr>role = Assistant,
        message_content =
          ''Sorry, I encountered an error while processing your question: '' @
          ''OpenAI API key sk-123 rejected'' @ ''. Please try again.'',
        citations = None\<rparr>]"
  by (simp add: handleQuery_def handleQuery_send_def handleQuery_settle_def errorDetails_def
      searchAPI_query_def trim_def isWhiteSpace_def)

text \<open>
  Claim C7 as amended. When the call of a query that passed the guard fails, with any
  error, \<open>handleQuery\<close> returns normally: after the user's message it appends one
  assistant message, \<open>Sorry, I encountered an error while processing your question:
  <details>. Please try again.\<close>, and clears the loading flag. \<open><details>\<close> is the
  response's \<open>detail\<close> when there is a non-empty one, word for word; otherwise the error's
  \<open>message\<close> when that is non-empty; otherwise \<open>Unknown error\<close>.
\<close>

theorem handleQuery_error_message:
  "trim query \<noteq> [] \<Longrightarrow> \<not> isLoading s \<Longrightarrow>
   messages (handleQuery (Inl e) query s) =
     messages s @
       [\<lparr>role = User, message_content = query, citations = None\<rparr>,
        \<lparr>role = Assistant,
          message_content =
            ''Sorry, I encountered an error while processing your question: '' @
            errorDetails e @ ''. Please try again.'',
          citations = None\<rparr>]
   \<and> isLoading (handleQuery (Inl e) query s) = False
   \<and> (\<forall>d. response_data_detail e = Some d \<longrightarrow> d \<noteq> [] \<longrightarrow> errorDetails e = d)
   \<and> (truthy (response_data_detail e) = None \<longrightarrow>
        (\<forall>m. error_message e = Some m \<longrightarrow> m \<noteq> [] \<longrightarrow> errorDetails e = m))
   \<and> (truthy (response_data_detail e) = None \<longrightarrow> truthy (error_message e) = None \<longrightarrow>
        errorDetails e = ''Unknown error'')"
  by (simp add: handleQuery_def handleQuery_send_def handleQuery_settle_def errorDetails_def)

theorem handleQuery_error_message_witness:
  "trim ''hello'' \<noteq> []
   \<and> messages (handleQuery (Inl \<lparr>response_data_detail = None, error_message = Some ''Network Error''\<rparr>)
        ''hello'' \<lparr>question = ''hello'', messages = [], isLoading = False, posted = []\<rparr>)
     = [\<lparr>role = User, message_content = ''hello'', citations = None\<rparr>,
        \<lparr>role = Assistant,
          message_content =
            ''Sorry, I encountered an error while processing your question: Network Error. Please try again.'',
          citations = None\<rparr>]
   \<and> isLoading (handleQuery (Inl \<lparr>response_data_detail = None, error_message = Some ''Network Error''\<rparr>)
        ''hello'' \<lparr>question = ''hello'', messages = [], isLoading = False, posted = []\<rparr>) = False"
proof -
  have blank: "trim ''hello'' \<noteq> []"
    by (simp add: trim_def isWhiteSpace_def)
  have idle: "\<not> isLoading \<lparr>question = ''hello'', messages = [], isLoading = False, posted = []\<rparr>"
    by simp
  have details: "errorDetails \<lparr>response_data_detail = None, error_message = Some ''Network Error''\<rparr>
      = ''Network Error''"
    by (simp add: errorDetails_def)
  show ?thesis
    using blank details
      handleQuery_error_message [OF blank idle,
        of "\<lparr>response_data_detail = None, error_message = Some ''Network Error''\<rparr>"]
    by simp
qed

section \<open>Properties of the crawl trigger\<close>

text \<open>
  Claim C4 as stated fails in its second half: nothing is reported. Origin 7 has a crawl
  in flight; a second trigger leaves the page exactly as it was on both pages: no
  second request, and also no alert and no other trace of an "already running" answer.
\<close>

theorem handleCrawl_in_flight_silent:
  "Monitor_handleCrawl
      \<lparr>origin_id = 7, name = ''EU AI Act'', url = ''https://example.org/ai-act'',
        frequency_hours = 24, enabled = True, last_run = None, last_status = None,
        qdrant_status = None\<rparr>
      \<lparr>crawlingIds = {7}, triggered = [7], alerts = []\<rparr>
   = \<lparr>crawlingIds = {7}, triggered = [7], alerts = []\<rparr>
   \<and> AdminDashboard_handleCrawl
      \<lparr>origin_id = 7, name = ''EU AI Act'', url = ''https://example.org/ai-act'',
        frequency_hours = 24, enabled = True, last_run = None, last_status = None,
        qdrant_status = None\<rparr>
      \<lparr>crawlingIds = {7}, triggered = [7], alerts = []\<rparr>
   = \<lparr>crawlingIds = {7}, triggered = [7], alerts = []\<rparr>"
  by (simp add: Monitor_handleCrawl_def AdminDashboard_handleCrawl_def)

text \<open>
  Claim C4 as amended. When an origin's id is in \<open>crawlingIds\<close>, a second trigger for it
  issues no second crawl request and changes nothing at all: the handler of either page
  returns without a report. What shows the running crawl is the row's button, which
  either page renders disabled and labelled \<open>Crawling...\<close> for as long as the id is in
  \<open>crawlingIds\<close>.
\<close>

theorem handleCrawl_in_flight:
  "origin_id og \<in> crawlingIds s \<Longrightarrow>
   Monitor_handleCrawl og s = s
   \<and> AdminDashboard_handleCrawl og s = s
   \<and> Monitor_crawl_button og s = \<lparr>disabled = True, label = ''Crawling...''\<rparr>
   \<and> AdminDashboard_crawl_button og s = \<lparr>disabled = True, label = ''Crawling...''\<rparr>"
  by (simp add: Monitor_handleCrawl_def AdminDashboard_handleCrawl_def
      Monitor_crawl_button_def AdminDashboard_crawl_button_def)

theorem handleCrawl_in_flight_witness:
  "triggered (Monitor_handleCrawl
      \<lparr>origin_id = 2, name = ''NIST'', url = ''https://example.org/nist'',
        frequency_hours = 12, enabled = True, last_run = Some 1700000000000,
        last_status = Some ''crawl: success, qdrant: success'', qdrant_status = None\<rparr>
      \<lparr>crawlingIds = {2, 5}, triggered = [5, 2], alerts = []\<rparr>) = [5, 2]
   \<and> label (AdminDashboard_crawl_button
      \<lparr>origin_id = 2, name = ''NIST'', url = ''https://example.org/nist'',
        frequency_hours = 12, enabled = True, last_run = Some 1700000000000,
        last_status = Some ''crawl: success, qdrant: success'', qdrant_status = None\<rparr>
      \<lparr>crawlingIds = {2, 5}, triggered = [5, 2], alerts = []\<rparr>) = ''Crawling...''"
proof -
  have in_flight: "origin_id
      \<lparr>origin_id = 2, name = ''NIST'', url = ''https://example.org/nist'',
        frequency_hours = 12, enabled = True, last_run = Some 1700000000000,
        last_status = Some ''crawl: success, qdrant: success'', qdrant_status = None\<rparr>
      \<in> crawlingIds \<lparr>crawlingIds = {2, 5}, triggered = [5, 2], alerts = []\<rparr>"
    by simp
  show ?thesis
    using handleCrawl_in_flight [OF in_flight] by simp
qed

text \<open>
  Claim C8 as stated fails for the handler of the AdminDashboard page, which checks
  \<open>crawlingIds\<close> only: invoked on the disabled origin 3 it issues the crawl request.
\<close>

theorem AdminDashboard_handleCrawl_disabled_origin:
  "triggered (AdminDashboard_handleCrawl
      \<lparr>origin_id = 3, name = ''OECD'', url = ''https://example.org/oecd'',
        frequency_hours = 24, enabled = False, last_run = None, last_status = None,
        qdrant_status = None\<rparr>
      \<lparr>crawlingIds = {}, triggered = [], alerts = []\<rparr>) = [3]"
  by (simp add: AdminDashboard_handleCrawl_def)

text \<open>
  Claim C8 as amended. For every origin with \<open>enabled = false\<close>, whatever its \<open>last_run\<close>:
  the crawl handler of the Monitor page issues no crawl request, and on both pages the
  Crawl button of the origin is rendered disabled, so that a click on it issues no
  crawl request and changes nothing. (On the AdminDashboard page it is the button, not
  the handler, that holds the check.)
\<close>

theorem crawl_disabled_origin:
  "\<not> enabled og \<Longrightarrow>
   Monitor_handleCrawl og s = s
   \<and> disabled (Monitor_crawl_button og s)
   \<and> Monitor_click_crawl og s = s
   \<and> disabled (AdminDashboard_crawl_button og s)
   \<and> AdminDashboard_click_crawl og s = s"
  by (simp add: Monitor_handleCrawl_def Monitor_click_crawl_def AdminDashboard_click_crawl_def
      Monitor_crawl_button_def AdminDashboard_crawl_button_def)

theorem crawl_disabled_origin_witness:
  "triggered (Monitor_handleCrawl
      \<lparr>origin_id = 3, name = ''OECD'', url = ''https://example.org/oecd'',
        frequency_hours = 24, enabled = False, last_run = Some 0, last_status = None,
        qdrant_status = None\<rparr>
      \<lparr>crawlingIds = {}, triggered = [], alerts = []\<rparr>) = []
   \<and> triggered (AdminDashboard_click_crawl
      \<lparr>origin_id = 3, name = ''OECD'', url = ''https://example.org/oecd'',
        frequency_hours = 24, enabled = False, last_run = Some 0, last_status = None,
        qdrant_status = None\<rparr>
      \<lparr>crawlingIds = {}, triggered = [], alerts = []\<rparr>) = []"
proof -
  have off: "\<not> enabled
      \<lparr>origin_id = 3, name = ''OECD'', url = ''https://example.org/oecd'',
        frequency_hours = 24, enabled = False, last_run = Some 0, last_status = None,
        qdrant_status = None\<rparr>"
    by simp
  show ?thesis
    using crawl_disabled_origin [OF off, of "\<lparr>crawlingIds = {}, triggered = [], alerts = []\<rparr>"]
    by simp
qed

text \<open>
  Exclusive crawl on the Monitor page. A trigger for an enabled origin with no crawl in
  flight posts one crawl request and puts the id into \<open>crawlingIds\<close>; a second trigger on
  the page so updated posts nothing more; and once the crawl has settled (\<open>onSuccess\<close>
  or \<open>onError\<close>) the id is out of \<open>crawlingIds\<close> again.
\<close>

theorem Monitor_handleCrawl_exclusive:
  "enabled og \<Longrightarrow> origin_id og \<notin> crawlingIds s \<Longrightarrow>
   triggered (Monitor_handleCrawl og s) = triggered s @ [origin_id og]
   \<and> origin_id og \<in> crawlingIds (Monitor_handleCrawl og s)
   \<and> triggered (Monitor_handleCrawl og (Monitor_handleCrawl og s)) = triggered s @ [origin_id og]
   \<and> origin_id og \<notin> crawlingIds (Monitor_crawl_settled (origin_id og) (Monitor_handleCrawl og s))"
  by (simp add: Monitor_handleCrawl_def Monitor_crawl_settled_def)

theorem Monitor_handleCrawl_exclusive_witness:
  "triggered (Monitor_handleCrawl
      \<lparr>origin_id = 4, name = ''UNESCO'', url = ''https://example.org/unesco'',
        frequency_hours = 48, enabled = True, last_run = None, last_status = None,
        qdrant_status = None\<rparr>
      (Monitor_handleCrawl
        \<lparr>origin_id = 4, name = ''UNESCO'', url = ''https://example.org/unesco'',
          frequency_hours = 48, enabled = True, last_run = None, last_status = None,
          qdrant_status = None\<rparr>
        \<lparr>crawlingIds = {}, triggered = [], alerts = []\<rparr>)) = [4]"
proof -
  have on: "enabled
      \<lparr>origin_id = 4, name = ''UNESCO'', url = ''https://example.org/unesco'',
        frequency_hours = 48, enabled = True, last_run = None, last_status = None,
        qdrant_status = None\<rparr>"
    by simp
  have idle: "origin_id
      \<lparr>origin_id = 4, name = ''UNESCO'', url = ''https://example.org/unesco'',
        frequency_hours = 48, enabled = True, last_run = None, last_status = None,
        qdrant_status = None\<rparr>
      \<notin> crawlingIds \<lparr>crawlingIds = {}, triggered = [], alerts = []\<rparr>"
    by simp
  show ?thesis
    using Monitor_handleCrawl_exclusive [OF on idle] by simp
qed

section \<open>Properties of the status parser\<close>

lemma split_on_first:
  "\<exists>ps. split_on sep s = takeWhile (\<lambda>c. c \<noteq> sep) s # ps"
  by (induction s) (auto split: list.splits)

lemma trim_dropWhile: "trim (dropWhile isWhiteSpace s) = trim s"
  by (simp add: trim_def)

lemma replace_crawl_failed_literal:
  "replace_crawl_failed (''crawl: failed: '' @ t) = dropWhile isWhiteSpace t"
  by (simp add: replace_crawl_failed_def match_literal_i_def startsWith_def toLowerCase_def
      toLowerCase_char_def isWhiteSpace_def)

text \<open>What the parser returns on \<open>crawl: failed: r\<close> for any \<open>r\<close>: the part of \<open>r\<close> before
  its first comma, trimmed.\<close>

lemma parseCrawlStatus_failed:
  "parseCrawlStatus (Some (''crawl: failed: '' @ r)) =
     \<lparr>status = ''failed'', error = Some (trim (takeWhile (\<lambda>c. c \<noteq> CHR '','') r))\<rparr>"
proof -
  define ls where "ls = ''crawl: failed: '' @ r"
  define t where "t = takeWhile (\<lambda>c. c \<noteq> CHR '','') r"
  obtain ps where "split_on (CHR '','') ls = takeWhile (\<lambda>c. c \<noteq> CHR '','') ls # ps"
    using split_on_first by blast
  then have parts: "split_on (CHR '','') ls = (''crawl: failed: '' @ t) # ps"
    by (simp add: ls_def t_def)
  have nonempty: "truthy (Some ls) = Some ls"
    by (simp add: ls_def)
  have not_success: "\<not> startsWith (toLowerCase ls) ''crawl: success''"
    by (simp add: ls_def startsWith_def toLowerCase_def toLowerCase_char_def)
  have is_failed: "startsWith (toLowerCase ls) ''crawl: failed''"
    by (simp add: ls_def startsWith_def toLowerCase_def toLowerCase_char_def)
  have found:
    "find (\<lambda>p. startsWith (toLowerCase p) ''crawl:'') ((''crawl: failed: '' @ t) # ps)
      = Some (''crawl: failed: '' @ t)"
    by (simp add: startsWith_def toLowerCase_def toLowerCase_char_def)
  have "parseCrawlStatus (Some ls) = \<lparr>status = ''failed'', error = Some (trim t)\<rparr>"
    unfolding parseCrawlStatus_def nonempty
    by (simp only: not_success is_failed parts found Let_def option.case if_True if_False
        replace_crawl_failed_literal trim_dropWhile)
  then show ?thesis by (simp only: ls_def t_def)
qed

lemma trim_id:
  assumes "s = [] \<or> (\<not> isWhiteSpace (hd s) \<and> \<not> isWhiteSpace (last s))"
  shows "trim s = s"
proof (cases s)
  case Nil
  then show ?thesis by (simp add: trim_def)
next
  case (Cons c cs)
  then have front: "\<not> isWhiteSpace (hd s)" and rear: "\<not> isWhiteSpace (last s)"
    using assms by auto
  have "dropWhile isWhiteSpace s = s"
    using Cons front by simp
  moreover have "dropWhile isWhiteSpace (rev s) = rev s"
  proof (cases "rev s")
    case Nil
    then show ?thesis by simp
  next
    case (Cons a as)
    have "hd (rev s) = last s" by (simp add: hd_rev)
    then have "\<not> isWhiteSpace a" using Cons rear by simp
    then show ?thesis using Cons by simp
  qed
  ultimately show ?thesis by (simp add: trim_def)
qed

text \<open>
  The reason the parser returns, for every status \<open>crawl: failed: <reason>\<close>: the part
  of \<open><reason>\<close> before its first comma, without leading and trailing white space.
\<close>

theorem parseCrawlStatus_failed_reason:
  "parseCrawlStatus (Some (''crawl: failed: '' @ reason)) =
     \<lparr>status = ''failed'',
      error = Some (trim (takeWhile (\<lambda>c. c \<noteq> CHR '','') reason))\<rparr>"
  by (rule parseCrawlStatus_failed)

text \<open>
  Claim C5 as stated fails in its first half: the reason is not always returned in full.
  The parser trims the reason, so one that ends in a blank comes back shorter; and it
  cuts the status at its first comma before it looks for the reason, so a reason with a
  comma comes back only up to that comma.
\<close>

theorem parseCrawlStatus_reason_cut:
  "parseCrawlStatus (Some ''crawl: failed: timeout '')
     = \<lparr>status = ''failed'', error = Some ''timeout''\<rparr>
   \<and> parseCrawlStatus (Some ''crawl: failed: HTTP 503, retry later'')
     = \<lparr>status = ''failed'', error = Some ''HTTP 503''\<rparr>"
  by (simp add: parseCrawlStatus_def startsWith_def toLowerCase_def toLowerCase_char_def
      replace_crawl_failed_def match_literal_i_def isWhiteSpace_def trim_def)

text \<open>
  Claim C5 as amended. For every composite status string \<open>crawl: failed: <reason>\<close> whose
  \<open><reason>\<close> holds no comma, \<open>parseCrawlStatus\<close> returns status \<open>failed\<close> together with
  \<open><reason>\<close> without its leading and trailing white space, which is the full \<open><reason>\<close>
  when it neither starts nor ends with white space; and for every string beginning with
  \<open>crawl: success\<close> it returns status \<open>success\<close> with no error. (What is returned for a
  reason with a comma is left open here.)
\<close>

theorem parseCrawlStatus_composite:
  "CHR '','' \<notin> set reason \<Longrightarrow>
   parseCrawlStatus (Some (''crawl: failed: '' @ reason))
     = \<lparr>status = ''failed'', error = Some (trim reason)\<rparr>
   \<and> ((reason = [] \<or> (\<not> isWhiteSpace (hd reason) \<and> \<not> isWhiteSpace (last reason))) \<longrightarrow>
        parseCrawlStatus (Some (''crawl: failed: '' @ reason))
          = \<lparr>status = ''failed'', error = Some reason\<rparr>)
   \<and> parseCrawlStatus (Some (''crawl: success'' @ rest))
     = \<lparr>status = ''success'', error = None\<rparr>"
proof -
  assume "CHR '','' \<notin> set reason"
  then have whole: "takeWhile (\<lambda>c. c \<noteq> CHR '','') reason = reason"
    by auto
  have failed: "parseCrawlStatus (Some (''crawl: failed: '' @ reason))
      = \<lparr>status = ''failed'', error = Some (trim reason)\<rparr>"
    using parseCrawlStatus_failed [of reason] by (simp only: whole)
  have success: "parseCrawlStatus (Some (''crawl: success'' @ rest))
      = \<lparr>status = ''success'', error = None\<rparr>"
    by (simp add: parseCrawlStatus_def startsWith_def toLowerCase_def toLowerCase_char_def)
  show ?thesis
    using failed success trim_id [of reason] by simp
qed

theorem parseCrawlStatus_composite_witness:
  "CHR '','' \<notin> set ''HTTP 503''
   \<and> parseCrawlStatus (Some ''crawl: failed: HTTP 503'')
     = \<lparr>status = ''failed'', error = Some ''HTTP 503''\<rparr>
   \<and> parseCrawlStatus (Some ''crawl: success, qdrant: failed: timeout'')
     = \<lparr>status = ''success'', error = None\<rparr>"
proof -
  have no_comma: "CHR '','' \<notin> set ''HTTP 503''"
    by simp
  have ends: "\<not> isWhiteSpace (hd ''HTTP 503'') \<and> \<not> isWhiteSpace (last ''HTTP 503'')"
    by (simp add: isWhiteSpace_def)
  show ?thesis
    using no_comma ends
      parseCrawlStatus_composite [OF no_comma, of "'', qdrant: failed: timeout''"]
    by (simp add: trim_def isWhiteSpace_def)
qed

section \<open>Properties of the Monitor page's statistics\<close>

lemma counted_iff:
  "(case last_run og of
      None \<Rightarrow> False
    | Some lastRun \<Rightarrow>
        lastRun \<ge> now - 24 * 60 * 60 * 1000 \<and>
        (case last_status og of
           None \<Rightarrow> False
         | Some st \<Rightarrow> startsWith (toLowerCase st) p))
   = (ran_at_most_24h_before now og \<and> status_has_prefix p og)"
  by (auto simp: ran_at_most_24h_before_def status_has_prefix_def startsWith_def
      split: option.splits)

lemma composite_not_counted:
  "last_status og = Some (''crawl: '' @ rest) \<Longrightarrow>
   \<not> status_has_prefix ''success'' og \<and> \<not> status_has_prefix ''failed'' og"
  by (simp add: status_has_prefix_def toLowerCase_def toLowerCase_char_def)

lemma stats_counts:
  "stats now (Some os) =
     Some \<lparr>total_count = length os,
           enabled_count = length (filter enabled os),
           successful = length (filter
             (\<lambda>og. ran_at_most_24h_before now og \<and> status_has_prefix ''success'' og) os),
           failed = length (filter
             (\<lambda>og. ran_at_most_24h_before now og \<and> status_has_prefix ''failed'' og) os)\<rparr>"
  unfolding stats_def Let_def option.case counted_iff ..

lemma within_past_iff:
  "\<forall>t. last_run og = Some t \<longrightarrow> t \<le> now \<Longrightarrow>
   ran_within_past_24h now og = ran_at_most_24h_before now og"
  by (auto simp: ran_within_past_24h_def ran_at_most_24h_before_def split: option.splits)

text \<open>
  Claim C9 as stated fails on "within the past 24 hours": the statistics compare
  \<open>last_run\<close> with \<open>now - 24h\<close> only. \<open>now\<close> is the browser's clock and \<open>last_run\<close> is stamped
  by the server; an origin whose \<open>last_run\<close> lies one hour after \<open>now\<close> has not run within
  the past 24 hours, and is counted as successful all the same.
\<close>

theorem stats_counts_later_last_run:
  "\<not> ran_within_past_24h 1700000000000
       \<lparr>origin_id = 1, name = ''A'', url = ''https://a.example'', frequency_hours = 24,
         enabled = True, last_run = Some 1700003600000, last_status = Some ''success'',
         qdrant_status = None\<rparr>
   \<and> stats 1700000000000 (Some
       [\<lparr>origin_id = 1, name = ''A'', url = ''https://a.example'', frequency_hours = 24,
          enabled = True, last_run = Some 1700003600000, last_status = Some ''success'',
          qdrant_status = None\<rparr>])
     = Some \<lparr>total_count = 1, enabled_count = 1, successful = 1, failed = 0\<rparr>"
  by (simp add: ran_within_past_24h_def stats_def startsWith_def toLowerCase_def
      toLowerCase_char_def)

text \<open>
  Claim C9 as amended. Once the origins are loaded, the statistics count as successful
  exactly the origins that have a non-null \<open>last_run\<close> no more than 24 hours before \<open>now\<close>
  (a \<open>last_run\<close> later than \<open>now\<close> counts too) and a \<open>last_status\<close> that begins,
  lowercased, with \<open>success\<close>, and as failed exactly those with such a \<open>last_run\<close> and a
  \<open>last_status\<close> that begins, lowercased, with \<open>failed\<close>. When no \<open>last_run\<close> lies after
  \<open>now\<close>, these are exactly the origins that ran within the past 24 hours with such a
  status. A status in the composite format, beginning with \<open>crawl: \<close>, has neither prefix,
  so such an origin is in neither count; when every origin carries a composite status
  both counts are 0.
\<close>

theorem stats_24h_buckets:
  "stats now (Some os) =
     Some \<lparr>total_count = length os,
           enabled_count = length (filter enabled os),
           successful = length (filter
             (\<lambda>og. ran_at_most_24h_before now og \<and> status_has_prefix ''success'' og) os),
           failed = length (filter
             (\<lambda>og. ran_at_most_24h_before now og \<and> status_has_prefix ''failed'' og) os)\<rparr>
   \<and> ((\<forall>og \<in> set os. \<forall>t. last_run og = Some t \<longrightarrow> t \<le> now) \<longrightarrow>
         stats now (Some os) =
           Some \<lparr>total_count = length os,
                 enabled_count = length (filter enabled os),
                 successful = length (filter
                   (\<lambda>og. ran_within_past_24h now og \<and> status_has_prefix ''success'' og) os),
                 failed = length (filter
                   (\<lambda>og. ran_within_past_24h now og \<and> status_has_prefix ''failed'' og) os)\<rparr>)
   \<and> (\<forall>og rest. last_status og = Some (''crawl: '' @ rest) \<longrightarrow>
         \<not> status_has_prefix ''success'' og \<and> \<not> status_has_prefix ''failed'' og)
   \<and> ((\<forall>og \<in> set os. \<exists>rest. last_status og = Some (''crawl: '' @ rest)) \<longrightarrow>
         stats now (Some os) =
           Some \<lparr>total_count = length os, enabled_count = length (filter enabled os),
                 successful = 0, failed = 0\<rparr>)"
proof -
  have neither: "\<forall>og rest. last_status og = Some (''crawl: '' @ rest) \<longrightarrow>
         \<not> status_has_prefix ''success'' og \<and> \<not> status_has_prefix ''failed'' og"
    using composite_not_counted by blast
  have empty: "filter (\<lambda>og. ran_at_most_24h_before now og \<and> status_has_prefix p og) os = []"
    if "\<forall>og \<in> set os. \<exists>rest. last_status og = Some (''crawl: '' @ rest)"
      and "p = ''success'' \<or> p = ''failed''" for p
    using that neither by (auto simp: filter_empty_conv)
  have past: "filter (\<lambda>og. ran_within_past_24h now og \<and> status_has_prefix p og) os =
      filter (\<lambda>og. ran_at_most_24h_before now og \<and> status_has_prefix p og) os"
    if "\<forall>og \<in> set os. \<forall>t. last_run og = Some t \<longrightarrow> t \<le> now" for p
    by (rule filter_cong) (use that within_past_iff in auto)
  have composite: "(\<forall>og \<in> set os. \<exists>rest. last_status og = Some (''crawl: '' @ rest)) \<longrightarrow>
         stats now (Some os) =
           Some \<lparr>total_count = length os, enabled_count = length (filter enabled os),
                 successful = 0, failed = 0\<rparr>"
    using empty stats_counts [of now os] by simp
  have no_later: "(\<forall>og \<in> set os. \<forall>t. last_run og = Some t \<longrightarrow> t \<le> now) \<longrightarrow>
         stats now (Some os) =
           Some \<lparr>total_count = length os,
                 enabled_count = length (filter enabled os),
                 successful = length (filter
                   (\<lambda>og. ran_within_past_24h now og \<and> status_has_prefix ''success'' og) os),
                 failed = length (filter
                   (\<lambda>og. ran_within_past_24h now og \<and> status_has_prefix ''failed'' og) os)\<rparr>"
    using past stats_counts [of now os] by simp
  show ?thesis
    using stats_counts [of now os] no_later neither composite by blast
qed

theorem stats_24h_buckets_witness:
  "stats 1700000000000 (Some
     [\<lparr>origin_id = 1, name = ''A'', url = ''https://a.example'', frequency_hours = 24,
        enabled = True, last_run = Some 1699990000000, last_status = Some ''Success'',
        qdrant_status = None\<rparr>,
      \<lparr>origin_id = 2, name = ''B'', url = ''https://b.example'', frequency_hours = 24,
        enabled = False, last_run = Some 1699990000000, last_status = Some ''failed: timeout'',
        qdrant_status = None\<rparr>,
      \<lparr>origin_id = 3, name = ''C'', url = ''https://c.example'', frequency_hours = 24,
        enabled = True, last_run = Some 1699990000000,
        last_status = Some ''crawl: failed: timeout'', qdrant_status = None\<rparr>,
      \<lparr>origin_id = 4, name = ''D'', url = ''https://d.example'', frequency_hours = 24,
        enabled = True, last_run = Some 1600000000000, last_status = Some ''success'',
        qdrant_status = None\<rparr>,
      \<lparr>origin_id = 5, name = ''E'', url = ''https://e.example'', frequency_hours = 24,
        enabled = True, last_run = None, last_status = None, qdrant_status = None\<rparr>])
   = Some \<lparr>total_count = 5, enabled_count = 4, successful = 1, failed = 1\<rparr>
   \<and> stats 1700000000000 (Some
     [\<lparr>origin_id = 3, name = ''C'', url = ''https://c.example'', frequency_hours = 24,
        enabled = True, last_run = Some 1699990000000,
        last_status = Some ''crawl: failed: timeout'', qdrant_status = None\<rparr>])
   = Some \<lparr>total_count = 1, enabled_count = 1, successful = 0, failed = 0\<rparr>"
proof -
  have first: "stats 1700000000000 (Some
     [\<lparr>origin_id = 1, name = ''A'', url = ''https://a.example'', frequency_hours = 24,
        enabled = True, last_run = Some 1699990000000, last_status = Some ''Success'',
        qdrant_status = None\<rparr>,
      \<lparr>origin_id = 2, name = ''B'', url = ''https://b.example'', frequency_hours = 24,
        enabled = False, last_run = Some 1699990000000, last_status = Some ''failed: timeout'',
        qdrant_status = None\<rparr>,
      \<lparr>origin_id = 3, name = ''C'', url = ''https://c.example'', frequency_hours = 24,
        enabled = True, last_run = Some 1699990000000,
        last_status = Some ''crawl: failed: timeout'', qdrant_status = None\<rparr>,
      \<lparr>origin_id = 4, name = ''D'', url = ''https://d.example'', frequency_hours = 24,
        enabled = True, last_run = Some 1600000000000, last_status = Some ''success'',
        qdrant_status = None\<rparr>,
      \<lparr>origin_id = 5, name = ''E'', url = ''https://e.example'', frequency_hours = 24,
        enabled = True, last_run = None, last_status = None, qdrant_status = None\<rparr>])
   = Some \<lparr>total_count = 5, enabled_count = 4, successful = 1, failed = 1\<rparr>"
    by (simp add: stats_def startsWith_def toLowerCase_def toLowerCase_char_def)
  have composite: "\<forall>og \<in> set
     [\<lparr>origin_id = 3, name = ''C'', url = ''https://c.example'', frequency_hours = 24,
        enabled = True, last_run = Some 1699990000000,
        last_status = Some ''crawl: failed: timeout'', qdrant_status = None\<rparr>].
     \<exists>rest. last_status og = Some (''crawl: '' @ rest)"
    by simp
  show ?thesis
    using first composite
      stats_24h_buckets [of 1700000000000
        "[\<lparr>origin_id = 3, name = ''C'', url = ''https://c.example'', frequency_hours = 24,
           enabled = True, last_run = Some 1699990000000,
           last_status = Some ''crawl: failed: timeout'', qdrant_status = None\<rparr>]"]
    by simp
qed

section \<open>Properties of the activity feed\<close>

lemma activityFeed_from_origin:
  assumes "a \<in> set (activityFeed (Some os))"
  shows "\<exists>og \<in> set os. last_run og = Some (timestamp a) \<and> activity_id a = origin_id og
           \<and> activity_name a = name og"
proof -
  have "a \<in> set (map (\<lambda>og. \<lparr>activity_id = origin_id og,
                         activity_name = name og,
                         timestamp = (case last_run og of None \<Rightarrow> 0 | Some t \<Rightarrow> t),
                         activity_status = last_status og,
                         activity_enabled = enabled og\<rparr>)
                (filter (\<lambda>og. last_run og \<noteq> None) os))"
    using assms by (auto simp: activityFeed_def dest!: in_set_takeD)
  then obtain og where "og \<in> set os" and "last_run og \<noteq> None"
    and "a = \<lparr>activity_id = origin_id og,
               activity_name = name og,
               timestamp = (case last_run og of None \<Rightarrow> 0 | Some t \<Rightarrow> t),
               activity_status = last_status og,
               activity_enabled = enabled og\<rparr>"
    by auto
  then show ?thesis by (intro bexI [of _ og]) auto
qed

lemma activityFeed_newest_first:
  "sorted_wrt (\<lambda>a b. timestamp a \<ge> timestamp b) (activityFeed origins)"
proof (cases origins)
  case None
  then show ?thesis by (simp add: activityFeed_def)
next
  case (Some os)
  define xs where "xs = sort_key (\<lambda>a. - timestamp a)
              (map (\<lambda>og. \<lparr>activity_id = origin_id og,
                         activity_name = name og,
                         timestamp = (case last_run og of None \<Rightarrow> 0 | Some t \<Rightarrow> t),
                         activity_status = last_status og,
                         activity_enabled = enabled og\<rparr>)
                (filter (\<lambda>og. last_run og \<noteq> None) os))"
  have "sorted (map (\<lambda>a. - timestamp a) xs)"
    unfolding xs_def by (rule sorted_sort_key)
  then have "sorted_wrt (\<lambda>a b. timestamp a \<ge> timestamp b) xs"
    by (simp add: sorted_wrt_map)
  then have "sorted_wrt (\<lambda>a b. timestamp a \<ge> timestamp b) (take 20 xs)"
    by (rule sorted_wrt_take)
  then show ?thesis using Some by (simp add: activityFeed_def xs_def)
qed

text \<open>
  Claim C10 as stated fails on the word "strictly": two origins that ran at the same
  millisecond both enter the feed, next to each other, so the timestamps of the feed do
  not strictly descend.
\<close>

theorem activityFeed_equal_timestamps:
  "map timestamp (activityFeed (Some
     [\<lparr>origin_id = 1, name = ''A'', url = ''https://a.example'', frequency_hours = 24,
        enabled = True, last_run = Some 1700000000000, last_status = Some ''success'',
        qdrant_status = None\<rparr>,
      \<lparr>origin_id = 2, name = ''B'', url = ''https://b.example'', frequency_hours = 24,
        enabled = True, last_run = Some 1700000000000, last_status = Some ''success'',
        qdrant_status = None\<rparr>]))
   = [1700000000000, 1700000000000]"
  by (simp add: activityFeed_def)

text \<open>
  Claim C10 as amended. The activity feed contains only origins with a non-null
  \<open>last_run\<close> (each entry carries the id, the name and the \<open>last_run\<close> of an origin of the
  list), sorted by \<open>last_run\<close> timestamp in descending, newest-first order in which equal
  timestamps may follow each other, and holds at most 20 entries however many origins
  exist: as many as there are origins with a \<open>last_run\<close>, up to 20. Before the origins are
  loaded the feed is empty.
\<close>

theorem activityFeed_properties:
  "(\<forall>a \<in> set (activityFeed (Some os)).
      \<exists>og \<in> set os. last_run og = Some (timestamp a) \<and> activity_id a = origin_id og
        \<and> activity_name a = name og)
   \<and> sorted_wrt (\<lambda>a b. timestamp a \<ge> timestamp b) (activityFeed (Some os))
   \<and> length (activityFeed (Some os)) = min 20 (length (filter (\<lambda>og. last_run og \<noteq> None) os))
   \<and> length (activityFeed (Some os)) \<le> 20
   \<and> activityFeed None = []"
proof -
  have len: "length (activityFeed (Some os))
      = min 20 (length (filter (\<lambda>og. last_run og \<noteq> None) os))"
    by (simp add: activityFeed_def)
  have empty: "activityFeed None = []"
    by (simp add: activityFeed_def)
  show ?thesis
    using activityFeed_from_origin [of _ os] activityFeed_newest_first [of "Some os"] len empty
    by simp
qed

theorem activityFeed_properties_witness:
  "map activity_name (activityFeed (Some
     [\<lparr>origin_id = 1, name = ''A'', url = ''https://a.example'', frequency_hours = 24,
        enabled = True, last_run = Some 1600000000000, last_status = Some ''success'',
        qdrant_status = None\<rparr>,
      \<lparr>origin_id = 2, name = ''B'', url = ''https://b.example'', frequency_hours = 24,
        enabled = True, last_run = None, last_status = None, qdrant_status = None\<rparr>,
      \<lparr>origin_id = 3, name = ''C'', url = ''https://c.example'', frequency_hours = 24,
        enabled = False, last_run = Some 1700000000000, last_status = Some ''failed'',
        qdrant_status = None\<rparr>])) = [''C'', ''A'']
   \<and> length (activityFeed (Some
     [\<lparr>origin_id = 1, name = ''A'', url = ''https://a.example'', frequency_hours = 24,
        enabled = True, last_run = Some 1600000000000, last_status = Some ''success'',
        qdrant_status = None\<rparr>,
      \<lparr>origin_id = 2, name = ''B'', url = ''https://b.example'', frequency_hours = 24,
        enabled = True, last_run = None, last_status = None, qdrant_status = None\<rparr>,
      \<lparr>origin_id = 3, name = ''C'', url = ''https://c.example'', frequency_hours = 24,
        enabled = False, last_run = Some 1700000000000, last_status = Some ''failed'',
        qdrant_status = None\<rparr>])) = 2"
proof -
  have order: "map activity_name (activityFeed (Some
     [\<lparr>origin_id = 1, name = ''A'', url = ''https://a.example'', frequency_hours = 24,
        enabled = True, last_run = Some 1600000000000, last_status = Some ''success'',
        qdrant_status = None\<rparr>,
      \<lparr>origin_id = 2, name = ''B'', url = ''https://b.example'', frequency_hours = 24,
        enabled = True, last_run = None, last_status = None, qdrant_status = None\<rparr>,
      \<lparr>origin_id = 3, name = ''C'', url = ''https://c.example'', frequency_hours = 24,
        enabled = False, last_run = Some 1700000000000, last_status = Some ''failed'',
        qdrant_status = None\<rparr>])) = [''C'', ''A'']"
    by (simp add: activityFeed_def)
  show ?thesis
    using order
      activityFeed_properties [of
        "[\<lparr>origin_id = 1, name = ''A'', url = ''https://a.example'', frequency_hours = 24,
           enabled = True, last_run = Some 1600000000000, last_status = Some ''success'',
           qdrant_status = None\<rparr>,
          \<lparr>origin_id = 2, name = ''B'', url = ''https://b.example'', frequency_hours = 24,
           enabled = True, last_run = None, last_status = None, qdrant_status = None\<rparr>,
          \<lparr>origin_id = 3, name = ''C'', url = ''https://c.example'', frequency_hours = 24,
           enabled = False, last_run = Some 1700000000000, last_status = Some ''failed'',
           qdrant_status = None\<rparr>]"]
    by simp
qed

end
